theory Spec2Isabelle
  imports Main
begin

section \<open>JavaScript values\<close>

text \<open>
  A decoded request body is a JSON value. Numbers are restricted to integers (the
  correlation ids and codes that occur here); JavaScript's \<open>undefined\<close> is the
  \<open>None\<close> of \<open>json option\<close>. An object is the list of its members in source order.
\<close>

datatype json =
    JNull
  | JBool bool
  | JNum int
  | JStr string
  | JArr "json list"
  | JObj "(string \<times> json) list"

type_synonym js_val = "json option"

datatype js_error = TypeError string | SyntaxError string | JsError string

fun message :: "js_error \<Rightarrow> string" where
  "message (TypeError m) = m"
| "message (SyntaxError m) = m"
| "message (JsError m) = m"

text \<open>Member lookup: \<open>JSON.parse\<close> keeps the last of several members with one key.\<close>

definition field :: "(string \<times> json) list \<Rightarrow> string \<Rightarrow> js_val" where
  "field kvs k = map_of (rev kvs) k"

text \<open>
  Property access \<open>v.k\<close> for the property names read by the gateway (\<open>method\<close>,
  \<open>id\<close>, \<open>params\<close>, \<open>name\<close>, \<open>arguments\<close> and the tool argument names): it throws a
  \<open>TypeError\<close> on \<open>undefined\<close> and \<open>null\<close>, reads the member of an object, and is
  \<open>undefined\<close> on every other value, none of which has a property of these names.
\<close>

definition cannot_read :: "string \<Rightarrow> string \<Rightarrow> js_error" where
  "cannot_read what k =
     TypeError (''Cannot read properties of '' @ what @ '' (reading '' @ [CHR 0x27] @ k @ [CHR 0x27] @ '')'')"

fun get_prop :: "js_val \<Rightarrow> string \<Rightarrow> js_error + js_val" where
  "get_prop None k = Inl (cannot_read ''undefined'' k)"
| "get_prop (Some JNull) k = Inl (cannot_read ''null'' k)"
| "get_prop (Some (JObj kvs)) k = Inr (field kvs k)"
| "get_prop (Some v) k = Inr None"

text \<open>Truthiness, as used by \<open>if (x)\<close> and \<open>x || y\<close>.\<close>

fun truthy :: "js_val \<Rightarrow> bool" where
  "truthy None = False"
| "truthy (Some JNull) = False"
| "truthy (Some (JBool b)) = b"
| "truthy (Some (JNum n)) = (n \<noteq> 0)"
| "truthy (Some (JStr s)) = (s \<noteq> [])"
| "truthy (Some v) = True"

text \<open>\<open>JSON.stringify\<close> of an object literal leaves out the members that are \<open>undefined\<close>.\<close>

fun stringify_members :: "(string \<times> js_val) list \<Rightarrow> (string \<times> json) list" where
  "stringify_members [] = []"
| "stringify_members ((k, None) # ms) = stringify_members ms"
| "stringify_members ((k, Some v) # ms) = (k, v) # stringify_members ms"

definition object :: "(string \<times> js_val) list \<Rightarrow> json" where
  "object ms = JObj (stringify_members ms)"

text \<open>Sequencing of computations that may throw.\<close>

definition try_bind :: "'e + 'a \<Rightarrow> ('a \<Rightarrow> 'e + 'b) \<Rightarrow> 'e + 'b" where
  "try_bind m f = (case m of Inl e \<Rightarrow> Inl e | Inr v \<Rightarrow> f v)"

section \<open>The session store of \<open>HttpTransport\<close>\<close>

text \<open>
  \<open>transport.onclose\<close> is unset when the transport is constructed; the gateway later
  assigns the closure \<open>() => this.cleanupSession(transport.sessionId)\<close>.
\<close>

datatype onclose_handler = CleanupOnClose

record transport =
  sessionId :: string
  endpoint :: string
  onclose :: "onclose_handler option"

datatype mcp_server = MCPServer

record store =
  transports :: "string \<rightharpoonup> transport"
  servers :: "string \<rightharpoonup> mcp_server"
  sessionOrder :: "string list"

definition empty_store :: store where
  "empty_store = \<lparr>transports = Map.empty, servers = Map.empty, sessionOrder = []\<rparr>"

definition storeSession :: "store \<Rightarrow> transport \<Rightarrow> mcp_server \<Rightarrow> store" where
  "storeSession s t srv =
     \<lparr>transports = (transports s)(sessionId t \<mapsto> t),
      servers = (servers s)(sessionId t \<mapsto> srv),
      sessionOrder = sessionOrder s @ [sessionId t]\<rparr>"

text \<open>\<open>Array.prototype.indexOf\<close> (first position, or \<open>-1\<close>) and \<open>splice(index, 1)\<close>.\<close>

primrec indexOf :: "'a list \<Rightarrow> 'a \<Rightarrow> int" where
  "indexOf [] x = -1"
| "indexOf (y # ys) x =
     (if y = x then 0 else (let i = indexOf ys x in if i > -1 then i + 1 else -1))"

definition splice1 :: "'a list \<Rightarrow> nat \<Rightarrow> 'a list" where
  "splice1 xs i = take i xs @ drop (Suc i) xs"

definition cleanupSession :: "store \<Rightarrow> string \<Rightarrow> store" where
  "cleanupSession s sid =
     (let index = indexOf (sessionOrder s) sid in
      \<lparr>transports = (transports s)(sid := None),
       servers = (servers s)(sid := None),
       sessionOrder =
         (if index > -1 then splice1 (sessionOrder s) (nat index) else sessionOrder s)\<rparr>)"

text \<open>
  \<open>findTransport(sessionId?)\<close>: the argument is a header value or \<open>undefined\<close>; the
  test \<open>if (sessionId)\<close> is false for \<open>undefined\<close> and for the empty string.
\<close>

definition findTransport :: "store \<Rightarrow> string option \<Rightarrow> transport option" where
  "findTransport s sid =
     (case sid of
        Some i \<Rightarrow>
          if i \<noteq> [] then transports s i
          else if length (sessionOrder s) = 1 then transports s (sessionOrder s ! 0)
          else None
      | None \<Rightarrow>
          if length (sessionOrder s) = 1 then transports s (sessionOrder s ! 0)
          else None)"

text \<open>
  The resolution written inline in the \<open>POST /message\<close> branch of the stand-alone
  server (\<open>server-sse.ts\<close>), over the same three module-level containers.
\<close>

definition sse_message_transport :: "store \<Rightarrow> string option \<Rightarrow> transport option" where
  "sse_message_transport s sid =
     (if sid \<noteq> None \<and> sid \<noteq> Some [] then transports s (the sid)
      else if length (sessionOrder s) = 1 then transports s (sessionOrder s ! 0)
      else if length (sessionOrder s) > 1 then
        transports s (sessionOrder s ! (length (sessionOrder s) - 1))
      else None)"

text \<open>A sequence of store operations, as issued by stream establishment and closure.\<close>

datatype store_op = Store transport mcp_server | Cleanup string

fun apply_op :: "store \<Rightarrow> store_op \<Rightarrow> store" where
  "apply_op s (Store t srv) = storeSession s t srv"
| "apply_op s (Cleanup sid) = cleanupSession s sid"

definition run_ops :: "store \<Rightarrow> store_op list \<Rightarrow> store" where
  "run_ops s ops = foldl apply_op s ops"

text \<open>
  The operations of a run never store an id that is open at that moment: the transport
  constructor draws each \<open>sessionId\<close> from \<open>randomUUID()\<close>.
\<close>

fun fresh_ops :: "store \<Rightarrow> store_op list \<Rightarrow> bool" where
  "fresh_ops s [] = True"
| "fresh_ops s (Store t srv # ops) =
     (sessionId t \<notin> set (sessionOrder s) \<and> fresh_ops (storeSession s t srv) ops)"
| "fresh_ops s (Cleanup sid # ops) = fresh_ops (cleanupSession s sid) ops"

definition new_transport :: "string \<Rightarrow> string \<Rightarrow> transport" where
  "new_transport ep sid = \<lparr>sessionId = sid, endpoint = ep, onclose = None\<rparr>"

definition store_consistent :: "store \<Rightarrow> bool" where
  "store_consistent s \<longleftrightarrow>
     dom (transports s) = set (sessionOrder s) \<and> distinct (sessionOrder s)"

text \<open>
  The state of the store between requests once every stream establishment has completed:
  each transport is stored under its own, non-empty id and carries the gateway's closure.
\<close>

definition sessions_wired :: "store \<Rightarrow> bool" where
  "sessions_wired s \<longleftrightarrow>
     store_consistent s \<and> [] \<notin> dom (transports s) \<and>
     (\<forall>k t. transports s k = Some t \<longrightarrow> sessionId t = k \<and> onclose t = Some CleanupOnClose)"

section \<open>Digits and joining\<close>

text \<open>Decimal digits of an integer, as \<open>String(n)\<close> prints it.\<close>

function show_nat :: "nat \<Rightarrow> string" where
  "show_nat n =
     (if n < 10 then [char_of (48 + n)]
      else show_nat (n div 10) @ [char_of (48 + n mod 10)])"
  by pat_completeness auto
termination
  by (relation "measure id") auto

declare show_nat.simps [simp del]

definition show_int :: "int \<Rightarrow> string" where
  "show_int i = (if i < 0 then CHR ''-'' # show_nat (nat (- i)) else show_nat (nat i))"

fun join_with :: "string \<Rightarrow> string list \<Rightarrow> string" where
  "join_with sep [] = []"
| "join_with sep [x] = x"
| "join_with sep (x # y # ys) = x @ sep @ join_with sep (y # ys)"

section \<open>Tool catalog (\<open>config.ts\<close>)\<close>

record tool =
  name :: string
  description :: string
  inputSchema :: json

definition lang_description :: string where
  "lang_description = ''Language code, e.g. 'ru_RU', 'en_US'' @ [CHR 0x27]"

definition GEOCODE_TOOL :: tool where
  "GEOCODE_TOOL = \<lparr>
     name = ''maps_geocode'',
     description =
       ''Convert an address into geographic coordinates using individual address components'',
     inputSchema = JObj [
       (''type'', JStr ''object''),
       (''properties'', JObj [
          (''country'', JObj [(''type'', JStr ''string''),
             (''description'', JStr ''The country name'')]),
          (''state'', JObj [(''type'', JStr ''string''),
             (''description'', JStr ''The state, region or province name'')]),
          (''city'', JObj [(''type'', JStr ''string''),
             (''description'', JStr ''The city or locality name'')]),
          (''district'', JObj [(''type'', JStr ''string''),
             (''description'', JStr ''The district or neighborhood within the city'')]),
          (''street'', JObj [(''type'', JStr ''string''),
             (''description'', JStr ''The street name'')]),
          (''house_number'', JObj [(''type'', JStr ''string''),
             (''description'', JStr ''The house or building number'')]),
          (''lang'', JObj [(''type'', JStr ''string''),
             (''description'', JStr lang_description)])]),
       (''required'', JArr [JStr ''country'', JStr ''lang''])]\<rparr>"

definition REVERSE_GEOCODE_TOOL :: tool where
  "REVERSE_GEOCODE_TOOL = \<lparr>
     name = ''maps_reverse_geocode'',
     description = ''Convert coordinates into an address'',
     inputSchema = JObj [
       (''type'', JStr ''object''),
       (''properties'', JObj [
          (''latitude'', JObj [(''type'', JStr ''number''),
             (''description'', JStr ''Latitude coordinate'')]),
          (''longitude'', JObj [(''type'', JStr ''number''),
             (''description'', JStr ''Longitude coordinate'')]),
          (''lang'', JObj [(''type'', JStr ''string''),
             (''description'', JStr lang_description)])]),
       (''required'', JArr [JStr ''latitude'', JStr ''longitude'', JStr ''lang''])]\<rparr>"

definition RENDER_MAP_TOOL :: tool where
  "RENDER_MAP_TOOL = \<lparr>
     name = ''maps_render'',
     description = ''Render a map as a png image'',
     inputSchema = JObj [
       (''type'', JStr ''object''),
       (''properties'', JObj [
          (''latitude'', JObj [(''type'', JStr ''number''),
             (''description'', JStr ''Latitude coordinate of map center'')]),
          (''longitude'', JObj [(''type'', JStr ''number''),
             (''description'', JStr ''Longitude coordinate of map center'')]),
          (''latitude_span'', JObj [(''type'', JStr ''number''),
             (''description'', JStr ''Height of map image in degrees'')]),
          (''longitude_span'', JObj [(''type'', JStr ''number''),
             (''description'', JStr ''Width of map image in degrees'')]),
          (''lang'', JObj [(''type'', JStr ''string''),
             (''description'', JStr lang_description)]),
          (''placemarks'', JObj [(''type'', JStr ''array''),
             (''description'', JStr ''Array of placemarks to display on the map''),
             (''items'', JObj [
                (''type'', JStr ''object''),
                (''properties'', JObj [
                   (''latitude'', JObj [(''type'', JStr ''number''),
                      (''description'', JStr ''Latitude coordinate of the placemark'')]),
                   (''longitude'', JObj [(''type'', JStr ''number''),
                      (''description'', JStr ''Longitude coordinate of the placemark'')])]),
                (''required'', JArr [JStr ''latitude'', JStr ''longitude''])])])]),
       (''required'', JArr [JStr ''latitude'', JStr ''longitude'', JStr ''latitude_span'',
          JStr ''longitude_span'', JStr ''lang''])]\<rparr>"

definition MAPS_TOOLS :: "tool list" where
  "MAPS_TOOLS = [GEOCODE_TOOL, REVERSE_GEOCODE_TOOL, RENDER_MAP_TOOL]"

text \<open>
  The catalog declared again in the stand-alone event-stream server (\<open>server-sse.ts\<close>).
\<close>

definition GEOCODE_TOOL_sse :: tool where
  "GEOCODE_TOOL_sse = \<lparr>
     name = ''maps_geocode'',
     description =
       ''Convert an address into geographic coordinates using individual address components'',
     inputSchema = JObj [
       (''type'', JStr ''object''),
       (''properties'', JObj [
          (''country'', JObj [(''type'', JStr ''string''),
             (''description'', JStr ''The country name'')]),
          (''state'', JObj [(''type'', JStr ''string''),
             (''description'', JStr ''The state, region or province name'')]),
          (''city'', JObj [(''type'', JStr ''string''),
             (''description'', JStr ''The city or locality name'')]),
          (''district'', JObj [(''type'', JStr ''string''),
             (''description'', JStr ''The district or neighborhood within the city'')]),
          (''street'', JObj [(''type'', JStr ''string''),
             (''description'', JStr ''The street name'')]),
          (''house_number'', JObj [(''type'', JStr ''string''),
             (''description'', JStr ''The house or building number'')]),
          (''lang'', JObj [(''type'', JStr ''string''),
             (''description'', JStr lang_description)])]),
       (''required'', JArr [JStr ''country'', JStr ''lang''])]\<rparr>"

definition REVERSE_GEOCODE_TOOL_sse :: tool where
  "REVERSE_GEOCODE_TOOL_sse = \<lparr>
     name = ''maps_reverse_geocode'',
     description = ''Convert coordinates into an address'',
     inputSchema = JObj [
       (''type'', JStr ''object''),
       (''properties'', JObj [
          (''latitude'', JObj [(''type'', JStr ''number''),
             (''description'', JStr ''Latitude coordinate'')]),
          (''longitude'', JObj [(''type'', JStr ''number''),
             (''description'', JStr ''Longitude coordinate'')]),
          (''lang'', JObj [(''type'', JStr ''string''),
             (''description'', JStr lang_description)])]),
       (''required'', JArr [JStr ''latitude'', JStr ''longitude'', JStr ''lang''])]\<rparr>"

definition RENDER_MAP_TOOL_sse :: tool where
  "RENDER_MAP_TOOL_sse = \<lparr>
     name = ''maps_render'',
     description = ''Render a map as a png image'',
     inputSchema = JObj [
       (''type'', JStr ''object''),
       (''properties'', JObj [
          (''latitude'', JObj [(''type'', JStr ''number''),
             (''description'', JStr ''Latitude coordinate of map center'')]),
          (''longitude'', JObj [(''type'', JStr ''number''),
             (''description'', JStr ''Longitude coordinate of map center'')]),
          (''latitude_span'', JObj [(''type'', JStr ''number''),
             (''description'', JStr ''Height of map image in degrees'')]),
          (''longitude_span'', JObj [(''type'', JStr ''number''),
             (''description'', JStr ''Width of map image in degrees'')]),
          (''lang'', JObj [(''type'', JStr ''string''),
             (''description'', JStr lang_description)]),
          (''placemarks'', JObj [(''type'', JStr ''array''),
             (''description'', JStr ''Array of placemarks to display on the map''),
             (''items'', JObj [
                (''type'', JStr ''object''),
                (''properties'', JObj [
                   (''latitude'', JObj [(''type'', JStr ''number''),
                      (''description'', JStr ''Latitude coordinate of the placemark'')]),
                   (''longitude'', JObj [(''type'', JStr ''number''),
                      (''description'', JStr ''Longitude coordinate of the placemark'')])]),
                (''required'', JArr [JStr ''latitude'', JStr ''longitude''])])])]),
       (''required'', JArr [JStr ''latitude'', JStr ''longitude'', JStr ''latitude_span'',
          JStr ''longitude_span'', JStr ''lang''])]\<rparr>"

definition MAPS_TOOLS_sse :: "tool list" where
  "MAPS_TOOLS_sse = [GEOCODE_TOOL_sse, REVERSE_GEOCODE_TOOL_sse, RENDER_MAP_TOOL_sse]"

text \<open>
  The catalog of the stand-alone stdio server (the unnamed source file): same names,
  a one-field address for \<open>maps_geocode\<close> and no placemarks for \<open>maps_render\<close>.
\<close>

definition lang_description_stdio :: string where
  "lang_description_stdio = ''Language code (e.g., 'ru_RU', 'en_US')''"

definition GEOCODE_TOOL_stdio :: tool where
  "GEOCODE_TOOL_stdio = \<lparr>
     name = ''maps_geocode'',
     description = ''Convert an address into geographic coordinates'',
     inputSchema = JObj [
       (''type'', JStr ''object''),
       (''properties'', JObj [
          (''address'', JObj [(''type'', JStr ''string''),
             (''description'', JStr ''The address to geocode'')]),
          (''lang'', JObj [(''type'', JStr ''string''),
             (''description'', JStr lang_description_stdio)])]),
       (''required'', JArr [JStr ''address'', JStr ''lang''])]\<rparr>"

definition REVERSE_GEOCODE_TOOL_stdio :: tool where
  "REVERSE_GEOCODE_TOOL_stdio = \<lparr>
     name = ''maps_reverse_geocode'',
     description = ''Convert coordinates into an address'',
     inputSchema = JObj [
       (''type'', JStr ''object''),
       (''properties'', JObj [
          (''latitude'', JObj [(''type'', JStr ''number''),
             (''description'', JStr ''Latitude coordinate'')]),
          (''longitude'', JObj [(''type'', JStr ''number''),
             (''description'', JStr ''Longitude coordinate'')]),
          (''lang'', JObj [(''type'', JStr ''string''),
             (''description'', JStr lang_description_stdio)])]),
       (''required'', JArr [JStr ''latitude'', JStr ''longitude'', JStr ''lang''])]\<rparr>"

definition RENDER_MAP_TOOL_stdio :: tool where
  "RENDER_MAP_TOOL_stdio = \<lparr>
     name = ''maps_render'',
     description = ''Render a map as a png image'',
     inputSchema = JObj [
       (''type'', JStr ''object''),
       (''properties'', JObj [
          (''latitude'', JObj [(''type'', JStr ''number''),
             (''description'', JStr ''Latitude coordinate of map center'')]),
          (''longitude'', JObj [(''type'', JStr ''number''),
             (''description'', JStr ''Longitude coordinate of map center'')]),
          (''latitude_span'', JObj [(''type'', JStr ''number''),
             (''description'', JStr ''Height of map image in degrees'')]),
          (''longitude_span'', JObj [(''type'', JStr ''number''),
             (''description'', JStr ''Width of map image in degrees'')]),
          (''lang'', JObj [(''type'', JStr ''string''),
             (''description'', JStr lang_description_stdio)])]),
       (''required'', JArr [JStr ''latitude'', JStr ''longitude'', JStr ''latitude_span'',
          JStr ''longitude_span'', JStr ''lang''])]\<rparr>"

definition MAPS_TOOLS_stdio :: "tool list" where
  "MAPS_TOOLS_stdio = [GEOCODE_TOOL_stdio, REVERSE_GEOCODE_TOOL_stdio, RENDER_MAP_TOOL_stdio]"

text \<open>A descriptor as \<open>JSON.stringify\<close> writes it.\<close>

definition tool_json :: "tool \<Rightarrow> json" where
  "tool_json t =
     JObj [(''name'', JStr (name t)), (''description'', JStr (description t)),
           (''inputSchema'', inputSchema t)]"

section \<open>Requests, replies and the environment\<close>

text \<open>
  A request as the handlers read it: method, path of the URL, headers under their
  lower-case names, the body that \<open>readRequestBody\<close> collects, and whether the request
  stream is still unread (\<open>readRequestBody\<close> consumes it). A reply is the status written
  by \<open>writeHead\<close> with the text or the JSON value passed to \<open>res.end\<close>, or the event
  stream that stays open for a session.
\<close>

record request =
  req_method :: string
  req_path :: string
  req_headers :: "string \<rightharpoonup> string"
  req_body :: string
  req_readable :: bool

datatype reply =
    NoBody nat
  | TextReply nat string
  | JsonReply nat json
  | EventStream string

datatype content_item = TextContent string | ImageContent string string

record call_tool_result =
  content :: "content_item list"
  isError :: bool

text \<open>
  What the gateway calls and does not define: \<open>JSON.parse\<close>, the string form of a number
  outside the safe integer range, the configured API key, the clock, the SDK's
  \<open>server.connect\<close> and \<open>transport.handlePostMessage\<close>, and the upstream side of the
  three tools (the request to the mapping service with the decoding of its answer). Each
  of the calls may throw; \<open>Inl\<close> is the thrown error.
\<close>

record env =
  JSON_parse :: "string \<Rightarrow> js_error + json"
  Number_toString :: "int \<Rightarrow> string"
  YANDEX_MAPS_API_KEY :: string
  now_iso :: string
  server_connect :: "transport \<Rightarrow> js_error option"
  handlePostMessage :: "transport \<Rightarrow> request \<Rightarrow> js_error + reply"
  geocoder_fetch :: "(string \<times> string) list \<Rightarrow> js_error + call_tool_result"
  handleReverseGeocode :: "js_val \<Rightarrow> js_val \<Rightarrow> js_val \<Rightarrow> js_error + call_tool_result"
  handleRenderMap ::
    "js_val \<Rightarrow> js_val \<Rightarrow> js_val \<Rightarrow> js_val \<Rightarrow> js_val \<Rightarrow> js_val \<Rightarrow> js_error + call_tool_result"

section \<open>String conversion of values\<close>

text \<open>
  A number prints as its decimal digits as long as it is a safe integer (magnitude below
  \<open>2^53\<close>); beyond that the digits are those of the nearest double, in exponent form
  from \<open>1e21\<close>, and are left to the environment.
\<close>

definition number_string :: "env \<Rightarrow> int \<Rightarrow> string" where
  "number_string env n =
     (if - 9007199254740991 \<le> n \<and> n \<le> 9007199254740991 then show_int n
      else Number_toString env n)"

text \<open>
  \<open>String(v)\<close>, also the conversion of a template literal \<open>`${v}`\<close> and of an argument
  of \<open>searchParams.append\<close>. A parsed object with a member named \<open>toString\<close> hides the
  inherited method by a value that cannot be called, and the conversion throws; every
  other object prints as \<open>[object Object]\<close>. An array prints its elements from left to
  right, separated by commas, \<open>null\<close> elements as the empty string.
\<close>

fun js_string :: "env \<Rightarrow> json \<Rightarrow> js_error + string"
  and js_strings :: "env \<Rightarrow> json list \<Rightarrow> js_error + string list" where
  "js_string env JNull = Inr ''null''"
| "js_string env (JBool b) = Inr (if b then ''true'' else ''false'')"
| "js_string env (JNum n) = Inr (number_string env n)"
| "js_string env (JStr s) = Inr s"
| "js_string env (JArr xs) =
     (case js_strings env xs of Inl e \<Rightarrow> Inl e | Inr ss \<Rightarrow> Inr (join_with '','' ss))"
| "js_string env (JObj kvs) =
     (if field kvs ''toString'' \<noteq> None
      then Inl (TypeError ''Cannot convert object to primitive value'')
      else Inr ''[object Object]'')"
| "js_strings env [] = Inr []"
| "js_strings env (x # xs) =
     (case (if x = JNull then Inr [] else js_string env x) of
        Inl e \<Rightarrow> Inl e
      | Inr s \<Rightarrow> (case js_strings env xs of Inl e \<Rightarrow> Inl e | Inr ss \<Rightarrow> Inr (s # ss)))"

definition to_String :: "env \<Rightarrow> js_val \<Rightarrow> js_error + string" where
  "to_String env v = (case v of None \<Rightarrow> Inr ''undefined'' | Some j \<Rightarrow> js_string env j)"

text \<open>\<open>Array.prototype.join\<close>: \<open>undefined\<close> and \<open>null\<close> elements print as the empty string.\<close>

definition js_join :: "env \<Rightarrow> string \<Rightarrow> js_val list \<Rightarrow> js_error + string" where
  "js_join env sep xs =
     (case js_strings env (map (\<lambda>x. case x of None \<Rightarrow> JNull | Some v \<Rightarrow> v) xs) of
        Inl e \<Rightarrow> Inl e
      | Inr ss \<Rightarrow> Inr (join_with sep ss))"

section \<open>Tool handlers (\<open>handlers.ts\<close>)\<close>

text \<open>
  \<open>handleGeocode\<close>: the arguments arrive as the members of the untyped \<open>arguments\<close>
  object. The address is joined first, then the search parameters are appended in this
  order, \<open>lang\<close> converted to a string; \<open>geocoder_fetch\<close> stands for the request sent with
  them and the decoding of the answer.
\<close>

definition addressParts ::
  "js_val \<Rightarrow> js_val \<Rightarrow> js_val \<Rightarrow> js_val \<Rightarrow> js_val \<Rightarrow> js_val \<Rightarrow> js_val list" where
  "addressParts country state city district street house_number =
     filter (\<lambda>part. part \<noteq> None \<and> part \<noteq> Some (JStr []))
       [house_number, street, district, city, state, country]"

definition geocode_address ::
  "env \<Rightarrow> js_val \<Rightarrow> js_val \<Rightarrow> js_val \<Rightarrow> js_val \<Rightarrow> js_val \<Rightarrow> js_val \<Rightarrow> js_error + string" where
  "geocode_address env country state city district street house_number =
     js_join env '', '' (addressParts country state city district street house_number)"

definition geocode_searchParams ::
  "env \<Rightarrow> js_val \<Rightarrow> js_val \<Rightarrow> js_val \<Rightarrow> js_val \<Rightarrow> js_val \<Rightarrow> js_val \<Rightarrow> js_val
     \<Rightarrow> js_error + (string \<times> string) list" where
  "geocode_searchParams env country lang state city district street house_number =
     try_bind (geocode_address env country state city district street house_number) (\<lambda>address.
     try_bind (to_String env lang) (\<lambda>lang_string.
       Inr [(''geocode'', address),
            (''format'', ''json''),
            (''results'', ''1''),
            (''lang'', lang_string),
            (''apikey'', YANDEX_MAPS_API_KEY env)]))"

definition handleGeocode ::
  "env \<Rightarrow> js_val \<Rightarrow> js_val \<Rightarrow> js_val \<Rightarrow> js_val \<Rightarrow> js_val \<Rightarrow> js_val \<Rightarrow> js_val
     \<Rightarrow> js_error + call_tool_result" where
  "handleGeocode env country lang state city district street house_number =
     try_bind (geocode_searchParams env country lang state city district street house_number)
       (geocoder_fetch env)"

section \<open>Protocol envelopes\<close>

definition sendJsonResponse :: "js_val \<Rightarrow> js_val \<Rightarrow> reply" where
  "sendJsonResponse rid result =
     JsonReply 200 (object [(''jsonrpc'', Some (JStr ''2.0'')), (''id'', rid), (''result'', result)])"

text \<open>\<open>id: id || null\<close>: a falsy id is replaced by \<open>null\<close>.\<close>

definition sendJsonError :: "int \<Rightarrow> string \<Rightarrow> js_val \<Rightarrow> js_val \<Rightarrow> reply" where
  "sendJsonError code msg data rid =
     JsonReply 200 (object
       [(''jsonrpc'', Some (JStr ''2.0'')),
        (''id'', if truthy rid then rid else Some JNull),
        (''error'', Some (object
           [(''code'', Some (JNum code)), (''message'', Some (JStr msg)), (''data'', data)]))])"

fun content_json :: "content_item \<Rightarrow> json" where
  "content_json (TextContent t) = JObj [(''type'', JStr ''text''), (''text'', JStr t)]"
| "content_json (ImageContent d m) =
     JObj [(''type'', JStr ''image''), (''data'', JStr d), (''mimeType'', JStr m)]"

definition result_json :: "call_tool_result \<Rightarrow> json" where
  "result_json r =
     object [(''content'', Some (JArr (map content_json (content r)))),
             (''isError'', Some (JBool (isError r)))]"

section \<open>Stateless dispatch (\<open>HttpTransport\<close>)\<close>

text \<open>
  The \<open>try\<close> block of \<open>handleToolCall\<close> up to the value of \<open>result\<close>: the name and the
  arguments are read from \<open>params\<close>, and the arguments of the selected tool are read
  left to right before the handler is called. The default branch prints the name into
  its text, which throws for a name that has no string form.
\<close>

definition tool_result :: "env \<Rightarrow> js_val \<Rightarrow> js_error + call_tool_result" where
  "tool_result env jsonMessage =
     try_bind (get_prop jsonMessage ''params'') (\<lambda>params.
     try_bind (get_prop params ''name'') (\<lambda>toolName.
     try_bind (get_prop params ''arguments'') (\<lambda>toolArgs.
       if toolName = Some (JStr ''maps_geocode'') then
         try_bind (get_prop toolArgs ''country'') (\<lambda>country.
         try_bind (get_prop toolArgs ''lang'') (\<lambda>lang.
         try_bind (get_prop toolArgs ''state'') (\<lambda>state.
         try_bind (get_prop toolArgs ''city'') (\<lambda>city.
         try_bind (get_prop toolArgs ''district'') (\<lambda>district.
         try_bind (get_prop toolArgs ''street'') (\<lambda>street.
         try_bind (get_prop toolArgs ''house_number'') (\<lambda>house_number.
           handleGeocode env country lang state city district street house_number)))))))
       else if toolName = Some (JStr ''maps_reverse_geocode'') then
         try_bind (get_prop toolArgs ''latitude'') (\<lambda>latitude.
         try_bind (get_prop toolArgs ''longitude'') (\<lambda>longitude.
         try_bind (get_prop toolArgs ''lang'') (\<lambda>lang.
           handleReverseGeocode env latitude longitude lang)))
       else if toolName = Some (JStr ''maps_render'') then
         try_bind (get_prop toolArgs ''latitude'') (\<lambda>latitude.
         try_bind (get_prop toolArgs ''longitude'') (\<lambda>longitude.
         try_bind (get_prop toolArgs ''latitude_span'') (\<lambda>latitude_span.
         try_bind (get_prop toolArgs ''longitude_span'') (\<lambda>longitude_span.
         try_bind (get_prop toolArgs ''lang'') (\<lambda>lang.
         try_bind (get_prop toolArgs ''placemarks'') (\<lambda>placemarks.
           handleRenderMap env latitude longitude latitude_span longitude_span lang
             placemarks))))))
       else
         try_bind (to_String env toolName) (\<lambda>printed.
           Inr \<lparr>content = [TextContent (''Unknown tool: '' @ printed)],
                isError = True\<rparr>))))"

text \<open>
  \<open>handleToolCall\<close>: the result is sent inside the \<open>try\<close>; the \<open>catch\<close> sends the error
  text. Both read \<open>jsonMessage.id\<close>, which throws only when the message itself is
  \<open>null\<close>, and then out of the \<open>catch\<close> as well.
\<close>

definition handleToolCall :: "env \<Rightarrow> js_val \<Rightarrow> js_error + reply" where
  "handleToolCall env jsonMessage =
     (case try_bind (tool_result env jsonMessage) (\<lambda>result.
             try_bind (get_prop jsonMessage ''id'') (\<lambda>rid.
               Inr (sendJsonResponse rid (Some (result_json result))))) of
        Inr r \<Rightarrow> Inr r
      | Inl error \<Rightarrow>
          try_bind (get_prop jsonMessage ''id'') (\<lambda>rid.
            Inr (sendJsonResponse rid (Some (result_json
              \<lparr>content = [TextContent (''Tool error: '' @ message error)],
               isError = True\<rparr>)))))"

definition initialize_result :: json where
  "initialize_result = JObj [
     (''protocolVersion'', JStr ''2024-11-05''),
     (''serverInfo'', JObj [(''name'', JStr ''mcp-server/yandex-maps''),
        (''version'', JStr ''0.1.0'')]),
     (''capabilities'', JObj [(''tools'', JObj [])])]"

definition tools_result :: json where
  "tools_result = JObj [(''tools'', JArr (map tool_json MAPS_TOOLS))]"

definition handleStreamableHttpPost :: "env \<Rightarrow> string \<Rightarrow> js_error + reply" where
  "handleStreamableHttpPost env body =
     try_bind (JSON_parse env body) (\<lambda>jsonMessage.
     try_bind (get_prop (Some jsonMessage) ''method'') (\<lambda>method.
       if method = Some (JStr ''initialize'') then
         try_bind (get_prop (Some jsonMessage) ''id'') (\<lambda>rid.
           Inr (sendJsonResponse rid (Some initialize_result)))
       else if method = Some (JStr ''tools/list'') then
         try_bind (get_prop (Some jsonMessage) ''id'') (\<lambda>rid.
           Inr (sendJsonResponse rid (Some tools_result)))
       else if method = Some (JStr ''tools/call'') then
         handleToolCall env (Some jsonMessage)
       else
         try_bind (get_prop (Some jsonMessage) ''id'') (\<lambda>rid.
           Inr (sendJsonError (-32601) ''Method not found''
                  (Some (object [(''method'', method)])) rid))))"

section \<open>The SDK server's handlers (\<open>createMCPServer\<close>)\<close>

text \<open>
  Destructuring \<open>request.params.arguments\<close>, which the request schema leaves optional,
  throws when it is \<open>undefined\<close> or \<open>null\<close>. The tool name is a string, checked by
  the SDK.
  \<open>callTool_try\<close> is the \<open>try\<close> block of the handler.
\<close>

definition cannot_destructure :: "string \<Rightarrow> string \<Rightarrow> js_error" where
  "cannot_destructure what k =
     TypeError (''Cannot destructure property '' @ [CHR 0x27] @ k @ [CHR 0x27]
                @ '' of 'request.params.arguments' as it is '' @ what @ ''.'')"

definition destructure :: "js_val \<Rightarrow> string \<Rightarrow> string list \<Rightarrow> js_error + js_val list" where
  "destructure args first ks =
     (case args of
        None \<Rightarrow> Inl (cannot_destructure ''undefined'' first)
      | Some JNull \<Rightarrow> Inl (cannot_destructure ''null'' first)
      | Some (JObj kvs) \<Rightarrow> Inr (map (field kvs) ks)
      | Some v \<Rightarrow> Inr (map (\<lambda>k. None) ks))"

text \<open>The result \<open>{tools: MAPS_TOOLS}\<close> of the \<open>ListTools\<close> handler, as it is serialized.\<close>

definition listToolsRequestHandler :: json where
  "listToolsRequestHandler = JObj [(''tools'', JArr (map tool_json MAPS_TOOLS))]"

text \<open>The same handler of the stand-alone stdio server, over its own catalog.\<close>

definition listToolsRequestHandler_stdio :: json where
  "listToolsRequestHandler_stdio = JObj [(''tools'', JArr (map tool_json MAPS_TOOLS_stdio))]"

text \<open>The same handler of the stand-alone event-stream server, over its own catalog.\<close>

definition listToolsRequestHandler_sse :: json where
  "listToolsRequestHandler_sse = JObj [(''tools'', JArr (map tool_json MAPS_TOOLS_sse))]"



section \<open>Routes of \<open>HttpTransport\<close>\<close>

text \<open>\<open>a || b\<close> on two header values: the first unless it is absent or empty.\<close>

definition header_or :: "string option \<Rightarrow> string option \<Rightarrow> string option" where
  "header_or a b = (case a of Some x \<Rightarrow> if x \<noteq> [] then a else b | None \<Rightarrow> b)"

text \<open>The \<open>catch\<close> clause of \<open>handleMcpPost\<close>.\<close>

definition catch_internal_error :: "js_error + reply \<Rightarrow> reply" where
  "catch_internal_error r =
     (case r of
        Inr rep \<Rightarrow> rep
      | Inl error \<Rightarrow>
          sendJsonError (-32603) ''Internal error'' (Some (JStr (message error))) None)"

text \<open>
  \<open>handleMcpPost\<close> reads the whole body first; the request it then hands to the
  session's \<open>handlePostMessage\<close> has been consumed.
\<close>

definition handleMcpPost :: "env \<Rightarrow> store \<Rightarrow> request \<Rightarrow> reply" where
  "handleMcpPost env s req =
     (let body = req_body req;
          drained = req\<lparr>req_readable := False\<rparr>;
          sessionId = header_or (req_headers req ''mcp-session-id'')
                                (req_headers req ''x-session-id'')
      in catch_internal_error
           (case findTransport s sessionId of
              Some transport \<Rightarrow> handlePostMessage env transport drained
            | None \<Rightarrow> handleStreamableHttpPost env body))"

text \<open>
  \<open>transport?.onclose?.()\<close>: the closure assigned by the gateway removes the session
  of the transport it was created for.
\<close>

definition run_onclose :: "store \<Rightarrow> transport \<Rightarrow> store" where
  "run_onclose s t =
     (case onclose t of
        None \<Rightarrow> s
      | Some CleanupOnClose \<Rightarrow> cleanupSession s (sessionId t))"

definition handleMcpDelete :: "store \<Rightarrow> request \<Rightarrow> store \<times> reply" where
  "handleMcpDelete s req =
     (case req_headers req ''mcp-session-id'' of
        None \<Rightarrow> (s, TextReply 404 ''Session not found'')
      | Some sid \<Rightarrow>
          if sid \<noteq> [] \<and> transports s sid \<noteq> None then
            (case transports s sid of
               None \<Rightarrow> (s, TextReply 200 ''Session terminated'')
             | Some transport \<Rightarrow> (run_onclose s transport, TextReply 200 ''Session terminated''))
          else (s, TextReply 404 ''Session not found''))"

text \<open>\<open>String.prototype.includes\<close>.\<close>

fun str_includes :: "string \<Rightarrow> string \<Rightarrow> bool" where
  "str_includes [] p = (p = [])"
| "str_includes (c # cs) p = (take (length p) (c # cs) = p \<or> str_includes cs p)"

text \<open>
  The \<open>try\<close> block shared by \<open>handleMcpGet\<close> and \<open>handleLegacySseEndpoint\<close>: a transport
  with the freshly drawn id \<open>sid\<close> is stored, the server is connected, and then the
  closure is assigned to \<open>onclose\<close> of the stored transport. When \<open>connect\<close> throws, the
  session stays stored and the closure is never assigned.
\<close>

definition establish_stream :: "env \<Rightarrow> store \<Rightarrow> string \<Rightarrow> string \<Rightarrow> store \<times> reply" where
  "establish_stream env s ep sid =
     (let transport = new_transport ep sid;
          s1 = storeSession s transport MCPServer
      in case server_connect env transport of
           Some error \<Rightarrow> (s1, TextReply 500 ''Internal Server Error'')
         | None \<Rightarrow>
             (s1\<lparr>transports :=
                   (transports s1)(sid \<mapsto> transport\<lparr>onclose := Some CleanupOnClose\<rparr>)\<rparr>,
              EventStream sid))"

definition handleMethodNotAllowed :: reply where
  "handleMethodNotAllowed = TextReply 405 ''Method Not Allowed''"

definition handle404 :: reply where
  "handle404 = TextReply 404 ''Not found''"

definition handleMcpGet :: "env \<Rightarrow> string \<Rightarrow> store \<Rightarrow> request \<Rightarrow> store \<times> reply" where
  "handleMcpGet env sid s req =
     (let accept = (case req_headers req ''accept'' of
                      Some a \<Rightarrow> if a \<noteq> [] then a else [] | None \<Rightarrow> [])
      in if str_includes accept ''text/event-stream'' then establish_stream env s ''/mcp'' sid
         else (s, TextReply 405 ''Method Not Allowed''))"

definition handleMcpEndpoint :: "env \<Rightarrow> string \<Rightarrow> store \<Rightarrow> request \<Rightarrow> store \<times> reply" where
  "handleMcpEndpoint env sid s req =
     (if req_method req = ''GET'' then handleMcpGet env sid s req
      else if req_method req = ''POST'' then (s, handleMcpPost env s req)
      else if req_method req = ''DELETE'' then handleMcpDelete s req
      else (s, handleMethodNotAllowed))"

definition handleLegacySseEndpoint :: "env \<Rightarrow> string \<Rightarrow> store \<Rightarrow> request \<Rightarrow> store \<times> reply" where
  "handleLegacySseEndpoint env sid s req =
     (if req_method req \<noteq> ''GET'' then (s, handleMethodNotAllowed)
      else establish_stream env s ''/message'' sid)"

definition handleLegacyMessageEndpoint :: "env \<Rightarrow> store \<Rightarrow> request \<Rightarrow> reply" where
  "handleLegacyMessageEndpoint env s req =
     (if req_method req \<noteq> ''POST'' then handleMethodNotAllowed
      else case findTransport s (req_headers req ''x-session-id'') of
             None \<Rightarrow> TextReply 404 ''No active session found''
           | Some transport \<Rightarrow>
               (case handlePostMessage env transport req of
                  Inr rep \<Rightarrow> rep
                | Inl error \<Rightarrow> TextReply 500 ''Internal Server Error''))"

definition handleToolsDiscovery :: "request \<Rightarrow> reply" where
  "handleToolsDiscovery req =
     (if req_method req \<noteq> ''GET'' then handleMethodNotAllowed
      else JsonReply 200 (JObj [(''tools'', JArr (map tool_json MAPS_TOOLS))]))"

definition handleHealthCheck :: "env \<Rightarrow> request \<Rightarrow> reply" where
  "handleHealthCheck env req =
     (if req_method req \<noteq> ''GET'' then handleMethodNotAllowed
      else JsonReply 200 (JObj [(''status'', JStr ''ok''), (''timestamp'', JStr (now_iso env))]))"

text \<open>
  \<open>handleRequest\<close>; \<open>sid\<close> is the id that a transport constructed for this request
  would draw. The cross-origin headers set on every reply are not part of the model.
\<close>

definition handleRequest :: "env \<Rightarrow> string \<Rightarrow> store \<Rightarrow> request \<Rightarrow> store \<times> reply" where
  "handleRequest env sid s req =
     (if req_method req = ''OPTIONS'' then (s, NoBody 200)
      else if req_path req = ''/mcp'' then handleMcpEndpoint env sid s req
      else if req_path req = ''/sse'' then handleLegacySseEndpoint env sid s req
      else if req_path req = ''/message'' then (s, handleLegacyMessageEndpoint env s req)
      else if req_path req = ''/tools'' then (s, handleToolsDiscovery req)
      else if req_path req = ''/health'' then (s, handleHealthCheck env req)
      else (s, handle404))"

section \<open>Open event streams\<close>

text \<open>
  The HTTP server keeps a response open until it is ended. Every handler ends the
  response of its own request, except a successful stream establishment, whose response
  stays open as the event stream of the new session. The state of the server is the
  store together with the ids of the sessions whose event stream is open.
\<close>

record server =
  gateway :: store
  open_streams :: "string list"

definition serve :: "env \<Rightarrow> string \<Rightarrow> server \<Rightarrow> request \<Rightarrow> server \<times> reply" where
  "serve env sid sv req =
     (case handleRequest env sid (gateway sv) req of
        (s, rep) \<Rightarrow>
          (\<lparr>gateway = s,
            open_streams =
              (case rep of EventStream i \<Rightarrow> open_streams sv @ [i] | _ \<Rightarrow> open_streams sv)\<rparr>,
           rep))"

text \<open>
  The client of a session's stream disconnects: the stream is gone and the SDK calls the
  transport's \<open>onclose\<close>.
\<close>

definition client_disconnect :: "server \<Rightarrow> transport \<Rightarrow> server" where
  "client_disconnect sv t =
     \<lparr>gateway = run_onclose (gateway sv) t,
      open_streams = removeAll (sessionId t) (open_streams sv)\<rparr>"

section \<open>Reading a reply\<close>

definition member :: "json \<Rightarrow> string \<Rightarrow> js_val" where
  "member j k = (case j of JObj kvs \<Rightarrow> field kvs k | _ \<Rightarrow> None)"

definition reply_json :: "reply \<Rightarrow> json option" where
  "reply_json r = (case r of JsonReply st j \<Rightarrow> Some j | _ \<Rightarrow> None)"

definition reply_member :: "reply \<Rightarrow> string \<Rightarrow> js_val" where
  "reply_member r k = (case r of JsonReply st j \<Rightarrow> member j k | _ \<Rightarrow> None)"

text \<open>
  The descriptors listed in a \<open>tools/list\<close> result, read back member by member, and the
  parts of an input schema: its properties with their types, and its required names.
\<close>

definition read_tool :: "json \<Rightarrow> tool option" where
  "read_tool j =
     (case (member j ''name'', member j ''description'', member j ''inputSchema'') of
        (Some (JStr n), Some (JStr d), Some sch) \<Rightarrow>
          Some \<lparr>name = n, description = d, inputSchema = sch\<rparr>
      | _ \<Rightarrow> None)"

definition listed_tools :: "json \<Rightarrow> tool option list" where
  "listed_tools result =
     (case member result ''tools'' of Some (JArr ts) \<Rightarrow> map read_tool ts | _ \<Rightarrow> [])"

definition schema_properties :: "json \<Rightarrow> (string \<times> js_val) list" where
  "schema_properties sch =
     (case member sch ''properties'' of
        Some (JObj ps) \<Rightarrow> map (\<lambda>(k, v). (k, member v ''type'')) ps
      | _ \<Rightarrow> [])"

definition schema_required :: "json \<Rightarrow> json list" where
  "schema_required sch = (case member sch ''required'' of Some (JArr rs) \<Rightarrow> rs | _ \<Rightarrow> [])"

definition signature :: "tool \<Rightarrow> string \<times> string \<times> (string \<times> js_val) list \<times> json list" where
  "signature t =
     (name t, description t, schema_properties (inputSchema t), schema_required (inputSchema t))"

text \<open>
  An environment without a network, for evaluating the gateway at concrete requests:
  \<open>JSON.parse\<close> is given and every upstream request fails. The session's message handler
  behaves as the SDK's does: it accepts a message it can read from the request and answers
  400 when the request stream has been consumed.
\<close>

definition offline_env :: "(string \<Rightarrow> js_error + json) \<Rightarrow> env" where
  "offline_env parse =
     \<lparr>JSON_parse = parse,
      Number_toString = (\<lambda>n. if n = 1000000000000000000000 then ''1e+21'' else show_int n),
      YANDEX_MAPS_API_KEY = ''key'',
      now_iso = ''2024-01-01T00:00:00.000Z'',
      server_connect = (\<lambda>t. None),
      handlePostMessage = (\<lambda>t r.
        if req_readable r then Inr (TextReply 202 ''Accepted'')
        else Inr (TextReply 400 ''InternalServerError: stream is not readable'')),
      geocoder_fetch = (\<lambda>ps. Inl (JsError ''fetch failed'')),
      handleReverseGeocode = (\<lambda>lat lon lang. Inl (JsError ''fetch failed'')),
      handleRenderMap = (\<lambda>lat lon lat_span lon_span lang marks.
        Inr \<lparr>content = [TextContent ''Error rendering map: fetch failed''],
             isError = True\<rparr>)\<rparr>"

text \<open>\<open>JSON.parse\<close> on the request bodies used in the concrete evaluations below.\<close>

definition sample_parse :: "string \<Rightarrow> js_error + json" where
  "sample_parse b =
     (if b = ''{\"id\":1,\"method\":\"initialize\"}'' then
        Inr (JObj [(''id'', JNum 1), (''method'', JStr ''initialize'')])
      else if b = ''{\"id\":2,\"method\":\"tools/list\"}'' then
        Inr (JObj [(''id'', JNum 2), (''method'', JStr ''tools/list'')])
      else if b = ''{\"id\":3,\"method\":\"resources/list\"}'' then
        Inr (JObj [(''id'', JNum 3), (''method'', JStr ''resources/list'')])
      else if b = ''{\"id\":0,\"method\":\"ping\"}'' then
        Inr (JObj [(''id'', JNum 0), (''method'', JStr ''ping'')])
      else if b = ''null'' then Inr JNull
      else Inl (SyntaxError ''Unexpected token''))"

definition test_env :: env where
  "test_env = offline_env sample_parse"




definition mcp_request :: "string \<Rightarrow> (string \<rightharpoonup> string) \<Rightarrow> string \<Rightarrow> request" where
  "mcp_request m hs b =
     \<lparr>req_method = m, req_path = ''/mcp'', req_headers = hs, req_body = b,
      req_readable = True\<rparr>"

definition message_request :: "(string \<rightharpoonup> string) \<Rightarrow> string \<Rightarrow> request" where
  "message_request hs b =
     \<lparr>req_method = ''POST'', req_path = ''/message'', req_headers = hs, req_body = b,
      req_readable = True\<rparr>"

text \<open>The store after one stream has been established on the unified endpoint.\<close>

definition one_stream :: store where
  "one_stream = fst (establish_stream test_env empty_store ''/mcp'' ''a'')"







text \<open>The store after two streams have been established on the legacy endpoint.\<close>

definition sse_request :: request where
  "sse_request =
     \<lparr>req_method = ''GET'', req_path = ''/sse'', req_headers = Map.empty, req_body = [],
      req_readable = True\<rparr>"

definition two_streams :: store where
  "two_streams =
     fst (handleRequest test_env ''b'' (fst (handleRequest test_env ''a'' empty_store sse_request))
            sse_request)"

text \<open>
  The comma-space join of the components that are present and not empty, written from
  the description of the geocode query rather than from the handler.
\<close>

fun present_components :: "string option list \<Rightarrow> string list" where
  "present_components [] = []"
| "present_components (None # cs) = present_components cs"
| "present_components (Some c # cs) =
     (if c = [] then present_components cs else c # present_components cs)"

fun comma_space :: "string list \<Rightarrow> string" where
  "comma_space [] = []"
| "comma_space [c] = c"
| "comma_space (c # d # cs) = c @ '', '' @ comma_space (d # cs)"

section \<open>Properties of the session store\<close>

lemma indexOf_ge: "indexOf xs x \<ge> -1"
  by (induction xs) (auto simp: Let_def)

lemma indexOf_notin: "x \<notin> set xs \<Longrightarrow> indexOf xs x = -1"
  by (induction xs) auto

lemma indexOf_in: "x \<in> set xs \<Longrightarrow> indexOf xs x > -1"
  by (induction xs) (auto simp: Let_def)

lemma splice1_indexOf:
  "x \<in> set xs \<Longrightarrow> splice1 xs (nat (indexOf xs x)) = remove1 x xs"
proof (induction xs)
  case Nil
  then show ?case by simp
next
  case (Cons y ys)
  show ?case
  proof (cases "y = x")
    case True
    then show ?thesis by (simp add: splice1_def)
  next
    case False
    with Cons.prems have mem: "x \<in> set ys" by simp
    then have pos: "indexOf ys x > -1" by (rule indexOf_in)
    then have "nat (indexOf ys x + 1) = Suc (nat (indexOf ys x))" by simp
    with False pos Cons.IH [OF mem] show ?thesis
      by (simp add: splice1_def Let_def)
  qed
qed

lemma cleanupSession_order:
  "sessionOrder (cleanupSession s sid) = remove1 sid (sessionOrder s)"
proof (cases "sid \<in> set (sessionOrder s)")
  case True
  then show ?thesis
    by (simp add: cleanupSession_def Let_def indexOf_in splice1_indexOf)
next
  case False
  then show ?thesis
    by (simp add: cleanupSession_def Let_def indexOf_notin remove1_idem)
qed

lemma cleanupSession_transports:
  "transports (cleanupSession s sid) = (transports s)(sid := None)"
  by (simp add: cleanupSession_def Let_def)

lemma cleanupSession_servers:
  "servers (cleanupSession s sid) = (servers s)(sid := None)"
  by (simp add: cleanupSession_def Let_def)

lemma storeSession_consistent:
  "store_consistent s \<Longrightarrow> sessionId t \<notin> set (sessionOrder s) \<Longrightarrow>
   store_consistent (storeSession s t srv)"
  by (auto simp: store_consistent_def storeSession_def)

lemma cleanupSession_consistent:
  "store_consistent s \<Longrightarrow> store_consistent (cleanupSession s sid)"
  by (auto simp: store_consistent_def cleanupSession_order cleanupSession_transports)

lemma run_ops_consistent:
  "store_consistent s \<Longrightarrow> fresh_ops s ops \<Longrightarrow> store_consistent (run_ops s ops)"
proof (induction ops arbitrary: s)
  case Nil
  then show ?case by (simp add: run_ops_def)
next
  case (Cons a ops)
  show ?case
  proof (cases a)
    case (Store t srv)
    with Cons.prems have "store_consistent (storeSession s t srv)"
      and "fresh_ops (storeSession s t srv) ops"
      by (simp_all add: storeSession_consistent)
    from Cons.IH [OF this] Store show ?thesis by (simp add: run_ops_def)
  next
    case (Cleanup sid)
    with Cons.prems have "store_consistent (cleanupSession s sid)"
      and "fresh_ops (cleanupSession s sid) ops"
      by (simp_all add: cleanupSession_consistent)
    from Cons.IH [OF this] Cleanup show ?thesis by (simp add: run_ops_def)
  qed
qed

lemma empty_store_consistent: "store_consistent empty_store"
  by (simp add: store_consistent_def empty_store_def)

lemma run_ops_append: "run_ops s (as @ bs) = run_ops (run_ops s as) bs"
  by (simp add: run_ops_def)

lemma run_stores_order:
  "sessionOrder (run_ops s (map (\<lambda>t. Store t MCPServer) ts)) = sessionOrder s @ map sessionId ts"
  by (induction ts arbitrary: s) (simp_all add: run_ops_def storeSession_def)

lemma run_stores_dom:
  "dom (transports (run_ops s (map (\<lambda>t. Store t MCPServer) ts)))
     = dom (transports s) \<union> set (map sessionId ts)"
proof (induction ts arbitrary: s)
  case Nil
  then show ?case by (simp add: run_ops_def)
next
  case (Cons t ts)
  have "run_ops s (map (\<lambda>t. Store t MCPServer) (t # ts))
          = run_ops (storeSession s t MCPServer) (map (\<lambda>t. Store t MCPServer) ts)"
    by (simp add: run_ops_def)
  with Cons.IH [of "storeSession s t MCPServer"] show ?case
    by (auto simp: storeSession_def)
qed

lemma run_cleanups_order:
  "distinct (sessionOrder s) \<Longrightarrow>
   sessionOrder (run_ops s (map Cleanup sids)) = filter (\<lambda>x. x \<notin> set sids) (sessionOrder s)"
proof (induction sids arbitrary: s)
  case Nil
  then show ?case by (simp add: run_ops_def)
next
  case (Cons sid sids)
  let ?s1 = "cleanupSession s sid"
  have step: "run_ops s (map Cleanup (sid # sids)) = run_ops ?s1 (map Cleanup sids)"
    by (simp add: run_ops_def)
  have "filter ((\<noteq>) sid) (sessionOrder s) = filter (\<lambda>x. x \<noteq> sid) (sessionOrder s)"
    by (rule filter_cong) auto
  with Cons.prems have ord: "sessionOrder ?s1 = filter (\<lambda>x. x \<noteq> sid) (sessionOrder s)"
    by (simp add: cleanupSession_order distinct_remove1_removeAll removeAll_filter_not_eq)
  then have "distinct (sessionOrder ?s1)"
    using Cons.prems by simp
  from Cons.IH [OF this] step ord show ?case
    by (auto intro: filter_cong)
qed

lemma run_cleanups_transports:
  "transports (run_ops s (map Cleanup sids))
     = (\<lambda>k. if k \<in> set sids then None else transports s k)"
proof (induction sids arbitrary: s)
  case Nil
  then show ?case by (simp add: run_ops_def)
next
  case (Cons sid sids)
  have "run_ops s (map Cleanup (sid # sids)) = run_ops (cleanupSession s sid) (map Cleanup sids)"
    by (simp add: run_ops_def)
  with Cons.IH [of "cleanupSession s sid"] show ?case
    by (auto simp: cleanupSession_transports)
qed

lemma cleanupSession_twice:
  assumes "distinct (sessionOrder s)"
  shows "cleanupSession (cleanupSession s sid) sid = cleanupSession s sid"
proof -
  from assms have "sid \<notin> set (remove1 sid (sessionOrder s))" by simp
  then have "remove1 sid (remove1 sid (sessionOrder s)) = remove1 sid (sessionOrder s)"
    by (rule remove1_idem)
  then have "sessionOrder (cleanupSession (cleanupSession s sid) sid)
               = sessionOrder (cleanupSession s sid)"
    by (simp add: cleanupSession_order)
  moreover have "transports (cleanupSession (cleanupSession s sid) sid)
               = transports (cleanupSession s sid)"
    by (simp add: cleanupSession_transports)
  moreover have "servers (cleanupSession (cleanupSession s sid) sid)
               = servers (cleanupSession s sid)"
    by (simp add: cleanupSession_servers)
  ultimately show ?thesis by simp
qed

lemma findTransport_none_open:
  "sessionOrder s = [] \<Longrightarrow> findTransport s None = None"
  by (simp add: findTransport_def)

lemma findTransport_sole:
  "sessionOrder s = [i] \<Longrightarrow> findTransport s None = transports s i"
  by (simp add: findTransport_def)

lemma sse_message_transport_policy:
  "sse_message_transport s None =
     (if sessionOrder s = [] then None else transports s (last (sessionOrder s)))"
proof (cases "sessionOrder s" rule: rev_cases)
  case Nil
  then show ?thesis by (simp add: sse_message_transport_def)
next
  case (snoc ys y)
  then show ?thesis
    by (cases ys) (simp_all add: sse_message_transport_def nth_append)
qed


lemma cleanupSession_wired: "sessions_wired s \<Longrightarrow> sessions_wired (cleanupSession s sid)"
  by (auto simp: sessions_wired_def cleanupSession_consistent cleanupSession_transports
      split: if_splits)

lemma establish_stream_wired:
  assumes "sessions_wired s" and "sid \<notin> dom (transports s)" and "sid \<noteq> []"
    and "server_connect env (new_transport ep sid) = None"
  shows "sessions_wired (fst (establish_stream env s ep sid))"
  using assms
  by (auto simp: sessions_wired_def store_consistent_def establish_stream_def Let_def
      storeSession_def new_transport_def)

lemma handleMcpDelete_wired: "sessions_wired s \<Longrightarrow> sessions_wired (fst (handleMcpDelete s req))"
  by (auto simp: handleMcpDelete_def run_onclose_def cleanupSession_wired
      split: option.splits onclose_handler.splits)

lemma handleRequest_wired:
  assumes "sessions_wired s" and "sid \<notin> dom (transports s)" and "sid \<noteq> []"
    and "\<And>ep. server_connect env (new_transport ep sid) = None"
  shows "sessions_wired (fst (handleRequest env sid s req))"
  using assms
  by (simp add: handleRequest_def handleMcpEndpoint_def handleMcpGet_def
      handleLegacySseEndpoint_def handleMcpDelete_wired establish_stream_wired Let_def)

section \<open>Properties of the envelopes and of dispatch\<close>

lemma sendJsonResponse_members:
  "reply_member (sendJsonResponse rid (Some res)) ''result'' = Some res"
  "reply_member (sendJsonResponse rid (Some res)) ''error'' = None"
  "reply_member (sendJsonResponse rid (Some res)) ''id'' = rid"
  by (cases rid; simp add: sendJsonResponse_def object_def reply_member_def member_def field_def)+

lemma sendJsonError_members:
  "reply_member (sendJsonError code msg data rid) ''result'' = None"
  "reply_member (sendJsonError code msg data rid) ''error''
     = Some (object [(''code'', Some (JNum code)), (''message'', Some (JStr msg)), (''data'', data)])"
  "reply_member (sendJsonError code msg data rid) ''id''
     = Some (if truthy rid then the rid else JNull)"
  by (cases rid; simp add: sendJsonError_def object_def reply_member_def member_def field_def)+

lemma get_prop_same_object:
  "get_prop v k = Inr x \<Longrightarrow> \<exists>y. get_prop v k' = Inr y"
  by (cases "(v, k)" rule: get_prop.cases) auto


lemma to_String_string: "to_String env (Some (JStr n)) = Inr n"
  by (simp add: to_String_def)


lemma handleToolCall_shape:
  assumes "handleToolCall env jm = Inr r"
  shows "reply_member r ''result'' \<noteq> None \<and> reply_member r ''error'' = None"
  using assms
  by (auto simp: handleToolCall_def try_bind_def sendJsonResponse_members
      split: sum.splits)

lemma handleToolCall_id:
  assumes "handleToolCall env jm = Inr r" and "get_prop jm ''id'' = Inr rid"
  shows "reply_member r ''id'' = rid"
  using assms
  by (auto simp: handleToolCall_def try_bind_def sendJsonResponse_members
      split: sum.splits)

text \<open>
  Every reply of the stateless path has exactly one of \<open>result\<close> and \<open>error\<close>, and
  it carries the request's id whenever that id is truthy.
\<close>

lemma stateless_reply_shape:
  assumes "handleStreamableHttpPost env body = Inr r"
  shows "(reply_member r ''result'' = None) \<noteq> (reply_member r ''error'' = None)"
    and "JSON_parse env body = Inr (JObj kvs) \<Longrightarrow> truthy (field kvs ''id'') \<Longrightarrow>
         reply_member r ''id'' = field kvs ''id''"
proof -
  from assms obtain jm where jm: "JSON_parse env body = Inr jm"
    by (cases "JSON_parse env body") (simp_all add: handleStreamableHttpPost_def try_bind_def)
  with assms obtain m where m: "get_prop (Some jm) ''method'' = Inr m"
    by (cases "get_prop (Some jm) ''method''")
       (simp_all add: handleStreamableHttpPost_def try_bind_def)
  then obtain rid where rid: "get_prop (Some jm) ''id'' = Inr rid"
    using get_prop_same_object by blast
  have idv: "truthy rid \<Longrightarrow> Some (the rid) = rid"
    by (cases rid) simp_all
  consider "m = Some (JStr ''initialize'')" | "m = Some (JStr ''tools/list'')"
    | "m = Some (JStr ''tools/call'')"
    | "m \<noteq> Some (JStr ''initialize'')" "m \<noteq> Some (JStr ''tools/list'')"
      "m \<noteq> Some (JStr ''tools/call'')"
    by blast
  then have "(reply_member r ''result'' = None) \<noteq> (reply_member r ''error'' = None)
      \<and> (truthy rid \<longrightarrow> reply_member r ''id'' = rid)"
  proof cases
    case 1
    with assms jm m rid show ?thesis
      by (auto simp: handleStreamableHttpPost_def try_bind_def sendJsonResponse_members)
  next
    case 2
    with assms jm m rid show ?thesis
      by (auto simp: handleStreamableHttpPost_def try_bind_def sendJsonResponse_members)
  next
    case 3
    with assms jm m have "handleToolCall env (Some jm) = Inr r"
      by (simp add: handleStreamableHttpPost_def try_bind_def)
    from handleToolCall_shape [OF this] handleToolCall_id [OF this rid] show ?thesis by simp
  next
    case 4
    with assms jm m rid idv show ?thesis
      by (auto simp: handleStreamableHttpPost_def try_bind_def sendJsonError_members)
  qed
  then show "(reply_member r ''result'' = None) \<noteq> (reply_member r ''error'' = None)"
    and "JSON_parse env body = Inr (JObj kvs) \<Longrightarrow> truthy (field kvs ''id'') \<Longrightarrow>
         reply_member r ''id'' = field kvs ''id''"
    using jm rid by auto
qed

text \<open>A \<open>tools/call\<close> request on the stateless path is answered by \<open>handleToolCall\<close>.\<close>

lemma tools_call_dispatch:
  assumes "JSON_parse env body = Inr jm"
    and "get_prop (Some jm) ''method'' = Inr (Some (JStr ''tools/call''))"
  shows "handleStreamableHttpPost env body = handleToolCall env (Some jm)"
    and "\<exists>rid. get_prop (Some jm) ''id'' = Inr rid"
  using assms get_prop_same_object [OF assms(2)]
  by (simp_all add: handleStreamableHttpPost_def try_bind_def)

lemma null_body_internal_error:
  "JSON_parse env body = Inr JNull \<Longrightarrow>
   catch_internal_error (handleStreamableHttpPost env body)
     = sendJsonError (-32603) ''Internal error''
         (Some (JStr (message (cannot_read ''null'' ''method'')))) None"
  by (simp add: handleStreamableHttpPost_def try_bind_def catch_internal_error_def)

lemma join_with_comma_space: "join_with '', '' xs = comma_space xs"
  by (induction xs rule: comma_space.induct) simp_all

lemma js_strings_of_strings: "js_strings env (map JStr cs) = Inr cs"
  by (induction cs) simp_all

lemma present_parts:
  "map (\<lambda>x. case x of None \<Rightarrow> JNull | Some v \<Rightarrow> v)
     (filter (\<lambda>part. part \<noteq> None \<and> part \<noteq> Some (JStr [])) (map (map_option JStr) cs))
   = map JStr (present_components cs)"
proof (induction cs)
  case Nil
  then show ?case by simp
next
  case (Cons c cs)
  then show ?case by (cases c) simp_all
qed

lemma geocode_address_strings:
  "geocode_address env (Some (JStr country)) (map_option JStr state) (map_option JStr city)
     (map_option JStr district) (map_option JStr street) (map_option JStr house_number)
   = Inr (comma_space (present_components
       [house_number, street, district, city, state, Some country]))"
proof -
  have "[map_option JStr house_number, map_option JStr street, map_option JStr district,
         map_option JStr city, map_option JStr state, Some (JStr country)]
        = map (map_option JStr) [house_number, street, district, city, state, Some country]"
    by simp
  then show ?thesis
    unfolding geocode_address_def addressParts_def js_join_def
    by (simp only: present_parts js_strings_of_strings join_with_comma_space sum.case)
qed

lemma handleMcpPost_resolved:
  assumes "findTransport s (header_or (req_headers req ''mcp-session-id'')
                                       (req_headers req ''x-session-id'')) = Some t"
  shows "handleMcpPost env s req
     = catch_internal_error (handlePostMessage env t (req\<lparr>req_readable := False\<rparr>))"
  using assms by (simp add: handleMcpPost_def Let_def)

lemma handleLegacyMessageEndpoint_resolved:
  assumes "req_method req = ''POST''"
    and "findTransport s (req_headers req ''x-session-id'') = Some t"
    and "handlePostMessage env t req = Inr rep"
  shows "handleLegacyMessageEndpoint env s req = rep"
  using assms by (simp add: handleLegacyMessageEndpoint_def)

lemma serve_keeps_streams:
  assumes "snd (handleRequest env sid (gateway sv) req) \<noteq> EventStream i"
    and "i \<in> set (open_streams sv)"
  shows "i \<in> set (open_streams (fst (serve env sid sv req)))"
  using assms
  by (cases "handleRequest env sid (gateway sv) req")
     (auto simp: serve_def split: reply.splits)

lemma client_disconnect_closes:
  "sessionId t \<notin> set (open_streams (client_disconnect sv t))"
  by (simp add: client_disconnect_def)

lemma read_tool_json: "read_tool (tool_json t) = Some t"
  by (cases t) (simp add: read_tool_def tool_json_def member_def field_def)

lemma listed_tools_listing:
  "listed_tools (JObj [(''tools'', JArr (map tool_json ts))]) = map Some ts"
  by (simp add: listed_tools_def member_def field_def read_tool_json comp_def)

section \<open>Claims about the session store\<close>

text \<open>
  C1. With no explicit session id, the fallback resolution returns absent when no session
  is open, the sole session when one is open, and the most recently created session when
  several are open. With two sessions open, \<open>HttpTransport.findTransport\<close> returns
  absent and the legacy message endpoint answers 404, where the inline resolution of
  \<open>server-sse.ts\<close> on the same store returns the session created last.
\<close>

theorem findTransport_two_sessions:
  "sessionOrder two_streams = [''a'', ''b'']
   \<and> findTransport two_streams None = None
   \<and> handleRequest test_env ''c'' two_streams
        \<lparr>req_method = ''POST'', req_path = ''/message'', req_headers = Map.empty,
         req_body = ''{\"id\":1,\"method\":\"initialize\"}'', req_readable = True\<rparr>
       = (two_streams, TextReply 404 ''No active session found'')
   \<and> sse_message_transport two_streams None
       = Some \<lparr>sessionId = ''b'', endpoint = ''/message'', onclose = Some CleanupOnClose\<rparr>"
  by (simp add: two_streams_def sse_request_def handleRequest_def handleLegacySseEndpoint_def
      handleLegacyMessageEndpoint_def establish_stream_def test_env_def offline_env_def
      findTransport_def sse_message_transport_def storeSession_def empty_store_def
      new_transport_def Let_def)

text \<open>
  C4, as stated: after any sequence of \<open>storeSession\<close> and \<open>cleanupSession\<close> the ids of
  the mapping are the ids of the order sequence. Storing one id twice and removing it once
  leaves the id in the order sequence and not in the mapping.
\<close>

theorem store_duplicate_id_counterexample:
  "dom (transports (run_ops empty_store
          [Store (new_transport ''/mcp'' ''a'') MCPServer,
           Store (new_transport ''/mcp'' ''a'') MCPServer,
           Cleanup ''a'']))
   \<noteq> set (sessionOrder (run_ops empty_store
          [Store (new_transport ''/mcp'' ''a'') MCPServer,
           Store (new_transport ''/mcp'' ''a'') MCPServer,
           Cleanup ''a'']))"
  by (simp add: run_ops_def storeSession_def cleanupSession_def empty_store_def
      new_transport_def splice1_def Let_def)

text \<open>
  C4, amended: after any sequence of \<open>storeSession\<close> and \<open>cleanupSession\<close> that never
  stores an id which is open at that moment, the ids of the mapping are the ids of the
  order sequence, and removing an id a second time does not alter the store; creating
  sessions with pairwise different ids and then removing every one of them, in any order
  and any number of times, leaves the mapping and the order sequence empty.
\<close>

theorem session_store_invariant:
  assumes "fresh_ops empty_store ops"
    and "distinct (map sessionId ts)"
    and "set (map sessionId ts) \<subseteq> set sids"
  shows "dom (transports (run_ops empty_store ops)) = set (sessionOrder (run_ops empty_store ops))
    \<and> cleanupSession (cleanupSession (run_ops empty_store ops) sid) sid
        = cleanupSession (run_ops empty_store ops) sid
    \<and> transports (run_ops empty_store (map (\<lambda>t. Store t MCPServer) ts @ map Cleanup sids))
        = Map.empty
    \<and> sessionOrder (run_ops empty_store (map (\<lambda>t. Store t MCPServer) ts @ map Cleanup sids))
        = []"
proof -
  let ?s = "run_ops empty_store ops"
  let ?s1 = "run_ops empty_store (map (\<lambda>t. Store t MCPServer) ts)"
  have cons: "store_consistent ?s"
    using empty_store_consistent assms(1) by (rule run_ops_consistent)
  then have inv: "dom (transports ?s) = set (sessionOrder ?s)"
    by (simp add: store_consistent_def)
  from cons have twice: "cleanupSession (cleanupSession ?s sid) sid = cleanupSession ?s sid"
    by (simp add: store_consistent_def cleanupSession_twice)
  have ord1: "sessionOrder ?s1 = map sessionId ts"
    by (simp add: run_stores_order empty_store_def)
  have dom1: "dom (transports ?s1) = set (map sessionId ts)"
    by (simp add: run_stores_dom empty_store_def)
  have "transports (run_ops ?s1 (map Cleanup sids)) k = None" for k
  proof (cases "k \<in> set sids")
    case True
    then show ?thesis by (simp add: run_cleanups_transports)
  next
    case False
    with assms(3) have "k \<notin> dom (transports ?s1)" unfolding dom1 by blast
    then show ?thesis using False by (simp add: run_cleanups_transports domIff)
  qed
  then have emp: "transports (run_ops ?s1 (map Cleanup sids)) = Map.empty"
    by (rule ext)
  from assms(2) have "distinct (sessionOrder ?s1)" by (simp only: ord1)
  then have "sessionOrder (run_ops ?s1 (map Cleanup sids))
               = filter (\<lambda>x. x \<notin> set sids) (map sessionId ts)"
    by (simp only: run_cleanups_order ord1)
  also from assms(3) have "\<dots> = []"
    by (auto simp: filter_empty_conv)
  finally have ord: "sessionOrder (run_ops ?s1 (map Cleanup sids)) = []" .
  from inv twice emp ord show ?thesis
    by (simp only: run_ops_append simp_thms)
qed

theorem session_store_invariant_witness:
  "fresh_ops empty_store
     [Store (new_transport ''/mcp'' ''a'') MCPServer,
      Store (new_transport ''/sse'' ''b'') MCPServer, Cleanup ''a'']
   \<and> distinct (map sessionId [new_transport ''/mcp'' ''a'', new_transport ''/sse'' ''b''])
   \<and> set (map sessionId [new_transport ''/mcp'' ''a'', new_transport ''/sse'' ''b''])
        \<subseteq> set [''b'', ''a'', ''b'']
   \<and> dom (transports (run_ops empty_store
        [Store (new_transport ''/mcp'' ''a'') MCPServer,
         Store (new_transport ''/sse'' ''b'') MCPServer, Cleanup ''a'']))
      = {''b''}
   \<and> sessionOrder (run_ops empty_store
        (map (\<lambda>t. Store t MCPServer) [new_transport ''/mcp'' ''a'', new_transport ''/sse'' ''b'']
          @ map Cleanup [''b'', ''a'', ''b''])) = []"
proof -
  have f: "fresh_ops empty_store
     [Store (new_transport ''/mcp'' ''a'') MCPServer,
      Store (new_transport ''/sse'' ''b'') MCPServer, Cleanup ''a'']"
    by (simp add: storeSession_def empty_store_def new_transport_def)
  have d: "distinct (map sessionId [new_transport ''/mcp'' ''a'', new_transport ''/sse'' ''b''])"
    by (simp add: new_transport_def)
  have u: "set (map sessionId [new_transport ''/mcp'' ''a'', new_transport ''/sse'' ''b''])
        \<subseteq> set [''b'', ''a'', ''b'']"
    by (simp add: new_transport_def)
  have o: "sessionOrder (run_ops empty_store
        [Store (new_transport ''/mcp'' ''a'') MCPServer,
         Store (new_transport ''/sse'' ''b'') MCPServer, Cleanup ''a'']) = [''b'']"
    by (simp add: run_ops_def storeSession_def cleanupSession_def empty_store_def
        new_transport_def splice1_def Let_def)
  from session_store_invariant [OF f d u] f d u o show ?thesis
    by simp
qed

lemma one_stream_eq:
  "one_stream =
     \<lparr>transports = [''a'' \<mapsto> \<lparr>sessionId = ''a'', endpoint = ''/mcp'',
                                onclose = Some CleanupOnClose\<rparr>],
      servers = [''a'' \<mapsto> MCPServer],
      sessionOrder = [''a'']\<rparr>"
  by (simp add: one_stream_def establish_stream_def test_env_def offline_env_def storeSession_def
      new_transport_def empty_store_def Let_def)





section \<open>Claims about the routes\<close>

text \<open>
  C5. A POST to the unified endpoint with a session id header is routed to that
  session's message handler, and one without is parsed as a self-contained request and
  answered by the dispatcher. With one stream open, the POST that names this session is
  handed to the session's handler only after its body has been read: the handler cannot
  read the message and answers 400, where the same message posted to the legacy message
  endpoint is accepted. The POST without a session id header takes the same way and is
  not answered by the dispatcher, whose answer would be the \<open>initialize\<close> result.
\<close>

theorem mcp_post_drained_request:
  "handleRequest test_env ''b'' one_stream
      (mcp_request ''POST''
         [''content-type'' \<mapsto> ''application/json'', ''mcp-session-id'' \<mapsto> ''a'']
         ''{\"id\":1,\"method\":\"initialize\"}'')
     = (one_stream, TextReply 400 ''InternalServerError: stream is not readable'')
   \<and> handleRequest test_env ''b'' one_stream
      (message_request
         [''content-type'' \<mapsto> ''application/json'', ''x-session-id'' \<mapsto> ''a'']
         ''{\"id\":1,\"method\":\"initialize\"}'')
     = (one_stream, TextReply 202 ''Accepted'')
   \<and> handleRequest test_env ''b'' one_stream
      (mcp_request ''POST'' [''content-type'' \<mapsto> ''application/json'']
         ''{\"id\":1,\"method\":\"initialize\"}'')
     = (one_stream, TextReply 400 ''InternalServerError: stream is not readable'')
   \<and> catch_internal_error
        (handleStreamableHttpPost test_env ''{\"id\":1,\"method\":\"initialize\"}'')
     = sendJsonResponse (Some (JNum 1)) (Some initialize_result)"
  by (simp add: one_stream_eq mcp_request_def message_request_def handleRequest_def
      handleMcpEndpoint_def handleMcpPost_def handleLegacyMessageEndpoint_def Let_def
      findTransport_def header_or_def test_env_def offline_env_def sample_parse_def
      catch_internal_error_def handleStreamableHttpPost_def try_bind_def field_def)




text \<open>
  C9. A POST to the unified endpoint that resolves to no session and whose body
  \<open>JSON.parse\<close> cannot decode is answered by a protocol-level error with code -32603 whose
  \<open>data\<close> is the message of the parse error.
\<close>

theorem undecodable_body_internal_error:
  assumes "req_method req = ''POST''" and "req_path req = ''/mcp''"
    and "findTransport s (header_or (req_headers req ''mcp-session-id'')
                                     (req_headers req ''x-session-id'')) = None"
    and "JSON_parse env (req_body req) = Inl e"
  shows "handleRequest env sid s req =
     (s, JsonReply 200 (JObj
        [(''jsonrpc'', JStr ''2.0''),
         (''id'', JNull),
         (''error'', JObj [(''code'', JNum (-32603)), (''message'', JStr ''Internal error''),
            (''data'', JStr (message e))])]))"
  using assms
  by (simp add: handleRequest_def handleMcpEndpoint_def handleMcpPost_def Let_def
      catch_internal_error_def handleStreamableHttpPost_def try_bind_def sendJsonError_def
      object_def)

theorem undecodable_body_internal_error_witness:
  "JSON_parse test_env (req_body (mcp_request ''POST'' Map.empty ''{\"id\":1,''))
     = Inl (SyntaxError ''Unexpected token'')
   \<and> handleRequest test_env ''b'' empty_store (mcp_request ''POST'' Map.empty ''{\"id\":1,'') =
     (empty_store, JsonReply 200 (JObj
        [(''jsonrpc'', JStr ''2.0''),
         (''id'', JNull),
         (''error'', JObj [(''code'', JNum (-32603)), (''message'', JStr ''Internal error''),
            (''data'', JStr ''Unexpected token'')])]))"
proof -
  let ?req = "mcp_request ''POST'' Map.empty ''{\"id\":1,''"
  have m: "req_method ?req = ''POST''" and p: "req_path ?req = ''/mcp''"
    by (simp_all add: mcp_request_def)
  have f: "findTransport empty_store (header_or (req_headers ?req ''mcp-session-id'')
                                     (req_headers ?req ''x-session-id'')) = None"
    by (simp add: mcp_request_def header_or_def findTransport_def empty_store_def)
  have e: "JSON_parse test_env (req_body ?req) = Inl (SyntaxError ''Unexpected token'')"
    by (simp add: mcp_request_def test_env_def offline_env_def sample_parse_def)
  from undecodable_body_internal_error [OF m p f e, where sid = "''b''"] e show ?thesis
    by simp
qed

section \<open>Claims about dispatch\<close>



text \<open>
  C3. A request whose method name is none of \<open>initialize\<close>, \<open>tools/list\<close> and
  \<open>tools/call\<close> is answered by a protocol-level error with code -32601 whose \<open>data\<close>
  carries that method name; the reply has no \<open>result\<close>.
\<close>

theorem unknown_method_not_found:
  assumes "JSON_parse env body = Inr (JObj kvs)"
    and "field kvs ''method'' = Some (JStr m)"
    and "m \<notin> {''initialize'', ''tools/list'', ''tools/call''}"
  shows "\<exists>r. handleStreamableHttpPost env body = Inr r
    \<and> r = JsonReply 200 (JObj
        [(''jsonrpc'', JStr ''2.0''),
         (''id'', if truthy (field kvs ''id'') then the (field kvs ''id'') else JNull),
         (''error'', JObj [(''code'', JNum (-32601)), (''message'', JStr ''Method not found''),
            (''data'', JObj [(''method'', JStr m)])])])
    \<and> reply_member r ''result'' = None
    \<and> (\<exists>err. reply_member r ''error'' = Some err
          \<and> member err ''code'' = Some (JNum (-32601))
          \<and> member err ''data'' = Some (JObj [(''method'', JStr m)]))"
proof -
  from assms(3) have ne: "m \<noteq> ''initialize''" "m \<noteq> ''tools/list''" "m \<noteq> ''tools/call''"
    by simp_all
  have tr: "truthy (field kvs ''id'') \<Longrightarrow> \<exists>v. field kvs ''id'' = Some v"
    by (cases "field kvs ''id''") simp_all
  have "handleStreamableHttpPost env body
      = Inr (sendJsonError (-32601) ''Method not found''
               (Some (object [(''method'', Some (JStr m))])) (field kvs ''id''))"
    using assms(1,2) ne by (simp add: handleStreamableHttpPost_def try_bind_def)
  moreover have "sendJsonError (-32601) ''Method not found''
               (Some (object [(''method'', Some (JStr m))])) (field kvs ''id'')
     = JsonReply 200 (JObj
        [(''jsonrpc'', JStr ''2.0''),
         (''id'', if truthy (field kvs ''id'') then the (field kvs ''id'') else JNull),
         (''error'', JObj [(''code'', JNum (-32601)), (''message'', JStr ''Method not found''),
            (''data'', JObj [(''method'', JStr m)])])])"
    using tr by (auto simp: sendJsonError_def object_def)
  ultimately show ?thesis
    by (simp add: reply_member_def member_def field_def)
qed

theorem unknown_method_not_found_witness:
  "JSON_parse test_env ''{\"id\":3,\"method\":\"resources/list\"}''
     = Inr (JObj [(''id'', JNum 3), (''method'', JStr ''resources/list'')])
   \<and> ''resources/list'' \<notin> {''initialize'', ''tools/list'', ''tools/call''}
   \<and> handleStreamableHttpPost test_env ''{\"id\":3,\"method\":\"resources/list\"}''
     = Inr (JsonReply 200 (JObj
        [(''jsonrpc'', JStr ''2.0''),
         (''id'', JNum 3),
         (''error'', JObj [(''code'', JNum (-32601)), (''message'', JStr ''Method not found''),
            (''data'', JObj [(''method'', JStr ''resources/list'')])])]))"
proof -
  have p: "JSON_parse test_env ''{\"id\":3,\"method\":\"resources/list\"}''
     = Inr (JObj [(''id'', JNum 3), (''method'', JStr ''resources/list'')])"
    by (simp add: test_env_def offline_env_def sample_parse_def)
  have f: "field [(''id'', JNum 3), (''method'', JStr ''resources/list'')] ''method''
     = Some (JStr ''resources/list'')"
    by (simp add: field_def)
  have n: "''resources/list'' \<notin> {''initialize'', ''tools/list'', ''tools/call''}"
    by simp
  have i: "field [(''id'', JNum 3), (''method'', JStr ''resources/list'')] ''id'' = Some (JNum 3)"
    by (simp add: field_def)
  from unknown_method_not_found [OF p f n] p n show ?thesis
    unfolding i by auto
qed

text \<open>
  C7. A request with correlation id \<open>x\<close> answered on the stateless path gets a reply
  with the same id and exactly one of \<open>result\<close> and \<open>error\<close>. The request with id \<open>0\<close>
  and the unknown method \<open>ping\<close> is answered with the id \<open>null\<close>.
\<close>

theorem error_reply_drops_zero_id:
  "handleStreamableHttpPost test_env ''{\"id\":0,\"method\":\"ping\"}''
   = Inr (JsonReply 200 (JObj
       [(''jsonrpc'', JStr ''2.0''),
        (''id'', JNull),
        (''error'', JObj [(''code'', JNum (-32601)), (''message'', JStr ''Method not found''),
           (''data'', JObj [(''method'', JStr ''ping'')])])]))
   \<and> JSON_parse test_env ''{\"id\":0,\"method\":\"ping\"}''
       = Inr (JObj [(''id'', JNum 0), (''method'', JStr ''ping'')])"
  by (simp add: handleStreamableHttpPost_def try_bind_def test_env_def offline_env_def
      sample_parse_def sendJsonError_def object_def field_def)

text \<open>
  C8, as stated: \<open>tools/list\<close> yields the same three descriptors on every transport
  binding. The stand-alone stdio server lists, under the same three names, descriptors
  with other input schemas than those of the gateway: \<open>maps_geocode\<close> takes one
  \<open>address\<close> there, and \<open>maps_render\<close> has no \<open>placemarks\<close>.
\<close>

theorem tools_list_stdio_counterexample:
  "listed_tools listToolsRequestHandler_stdio \<noteq> listed_tools listToolsRequestHandler
   \<and> map (map_option (\<lambda>t. map fst (schema_properties (inputSchema t))))
         (listed_tools listToolsRequestHandler_stdio)
       = [Some [''address'', ''lang''],
          Some [''latitude'', ''longitude'', ''lang''],
          Some [''latitude'', ''longitude'', ''latitude_span'', ''longitude_span'', ''lang'']]
   \<and> map (map_option (\<lambda>t. map fst (schema_properties (inputSchema t))))
         (listed_tools listToolsRequestHandler)
       = [Some [''country'', ''state'', ''city'', ''district'', ''street'', ''house_number'',
                ''lang''],
          Some [''latitude'', ''longitude'', ''lang''],
          Some [''latitude'', ''longitude'', ''latitude_span'', ''longitude_span'', ''lang'',
                ''placemarks'']]"
proof -
  have a: "map (map_option (\<lambda>t. map fst (schema_properties (inputSchema t))))
         (listed_tools listToolsRequestHandler_stdio)
       = [Some [''address'', ''lang''],
          Some [''latitude'', ''longitude'', ''lang''],
          Some [''latitude'', ''longitude'', ''latitude_span'', ''longitude_span'', ''lang'']]"
    unfolding listToolsRequestHandler_stdio_def listed_tools_listing
    by (simp add: MAPS_TOOLS_stdio_def
        GEOCODE_TOOL_stdio_def REVERSE_GEOCODE_TOOL_stdio_def RENDER_MAP_TOOL_stdio_def
        schema_properties_def member_def field_def)
  have b: "map (map_option (\<lambda>t. map fst (schema_properties (inputSchema t))))
         (listed_tools listToolsRequestHandler)
       = [Some [''country'', ''state'', ''city'', ''district'', ''street'', ''house_number'',
                ''lang''],
          Some [''latitude'', ''longitude'', ''lang''],
          Some [''latitude'', ''longitude'', ''latitude_span'', ''longitude_span'', ''lang'',
                ''placemarks'']]"
    unfolding listToolsRequestHandler_def listed_tools_listing
    by (simp add: MAPS_TOOLS_def
        GEOCODE_TOOL_def REVERSE_GEOCODE_TOOL_def RENDER_MAP_TOOL_def
        schema_properties_def member_def field_def)
  have "listed_tools listToolsRequestHandler_stdio \<noteq> listed_tools listToolsRequestHandler"
  proof
    assume "listed_tools listToolsRequestHandler_stdio = listed_tools listToolsRequestHandler"
    with a b show False by simp
  qed
  with a b show ?thesis by (simp only: simp_thms)
qed

text \<open>
  C8, amended: on the bindings of the gateway, that is from the handler registered with
  the SDK server (used over stdio and over event streams), from the discovery route and
  from stateless dispatch, and from the stand-alone event-stream server, \<open>tools/list\<close>
  yields one and the same result, whatever the store holds and however often it is asked:
  the three descriptors \<open>maps_geocode\<close>, \<open>maps_reverse_geocode\<close> and \<open>maps_render\<close>
  of the catalog in this order. The stand-alone stdio server lists three descriptors with
  the same names in the same order.
\<close>

theorem tools_list_fixed_catalog:
  "listed_tools listToolsRequestHandler = map Some MAPS_TOOLS
   \<and> map signature MAPS_TOOLS =
        [(''maps_geocode'',
          ''Convert an address into geographic coordinates using individual address components'',
          [(''country'', Some (JStr ''string'')), (''state'', Some (JStr ''string'')),
           (''city'', Some (JStr ''string'')), (''district'', Some (JStr ''string'')),
           (''street'', Some (JStr ''string'')), (''house_number'', Some (JStr ''string'')),
           (''lang'', Some (JStr ''string''))],
          [JStr ''country'', JStr ''lang'']),
         (''maps_reverse_geocode'', ''Convert coordinates into an address'',
          [(''latitude'', Some (JStr ''number'')), (''longitude'', Some (JStr ''number'')),
           (''lang'', Some (JStr ''string''))],
          [JStr ''latitude'', JStr ''longitude'', JStr ''lang'']),
         (''maps_render'', ''Render a map as a png image'',
          [(''latitude'', Some (JStr ''number'')), (''longitude'', Some (JStr ''number'')),
           (''latitude_span'', Some (JStr ''number'')),
           (''longitude_span'', Some (JStr ''number'')),
           (''lang'', Some (JStr ''string'')), (''placemarks'', Some (JStr ''array''))],
          [JStr ''latitude'', JStr ''longitude'', JStr ''latitude_span'',
           JStr ''longitude_span'', JStr ''lang''])]
   \<and> listToolsRequestHandler_sse = listToolsRequestHandler
   \<and> map (map_option name) (listed_tools listToolsRequestHandler_stdio)
        = map (\<lambda>t. Some (name t)) MAPS_TOOLS
   \<and> (req_method req = ''GET'' \<and> req_path req = ''/tools'' \<longrightarrow>
        handleRequest env sid s req = (s, JsonReply 200 listToolsRequestHandler))
   \<and> (JSON_parse env body = Inr (JObj kvs) \<and> field kvs ''method'' = Some (JStr ''tools/list'') \<longrightarrow>
        (\<exists>r. handleStreamableHttpPost env body = Inr r
           \<and> reply_member r ''id'' = field kvs ''id''
           \<and> reply_member r ''error'' = None
           \<and> reply_member r ''result'' = Some listToolsRequestHandler))"
proof -
  have listed: "listed_tools listToolsRequestHandler = map Some MAPS_TOOLS"
    by (simp add: listed_tools_listing listToolsRequestHandler_def)
  have sigs: "map signature MAPS_TOOLS =
        [(''maps_geocode'',
          ''Convert an address into geographic coordinates using individual address components'',
          [(''country'', Some (JStr ''string'')), (''state'', Some (JStr ''string'')),
           (''city'', Some (JStr ''string'')), (''district'', Some (JStr ''string'')),
           (''street'', Some (JStr ''string'')), (''house_number'', Some (JStr ''string'')),
           (''lang'', Some (JStr ''string''))],
          [JStr ''country'', JStr ''lang'']),
         (''maps_reverse_geocode'', ''Convert coordinates into an address'',
          [(''latitude'', Some (JStr ''number'')), (''longitude'', Some (JStr ''number'')),
           (''lang'', Some (JStr ''string''))],
          [JStr ''latitude'', JStr ''longitude'', JStr ''lang'']),
         (''maps_render'', ''Render a map as a png image'',
          [(''latitude'', Some (JStr ''number'')), (''longitude'', Some (JStr ''number'')),
           (''latitude_span'', Some (JStr ''number'')),
           (''longitude_span'', Some (JStr ''number'')),
           (''lang'', Some (JStr ''string'')), (''placemarks'', Some (JStr ''array''))],
          [JStr ''latitude'', JStr ''longitude'', JStr ''latitude_span'',
           JStr ''longitude_span'', JStr ''lang''])]"
    by (simp add: MAPS_TOOLS_def GEOCODE_TOOL_def REVERSE_GEOCODE_TOOL_def RENDER_MAP_TOOL_def
        signature_def schema_properties_def schema_required_def member_def field_def)
  have sse: "listToolsRequestHandler_sse = listToolsRequestHandler"
    by (simp add: listToolsRequestHandler_sse_def listToolsRequestHandler_def MAPS_TOOLS_sse_def
        MAPS_TOOLS_def GEOCODE_TOOL_sse_def GEOCODE_TOOL_def REVERSE_GEOCODE_TOOL_sse_def
        REVERSE_GEOCODE_TOOL_def RENDER_MAP_TOOL_sse_def RENDER_MAP_TOOL_def)
  have names_stdio: "map (map_option name) (listed_tools listToolsRequestHandler_stdio)
        = map (\<lambda>t. Some (name t)) MAPS_TOOLS"
    unfolding listToolsRequestHandler_stdio_def listed_tools_listing
    by (simp add: MAPS_TOOLS_stdio_def
        GEOCODE_TOOL_stdio_def REVERSE_GEOCODE_TOOL_stdio_def RENDER_MAP_TOOL_stdio_def
        MAPS_TOOLS_def GEOCODE_TOOL_def REVERSE_GEOCODE_TOOL_def RENDER_MAP_TOOL_def)
  have disc: "req_method req = ''GET'' \<and> req_path req = ''/tools'' \<longrightarrow>
        handleRequest env sid s req = (s, JsonReply 200 listToolsRequestHandler)"
    by (simp add: handleRequest_def handleToolsDiscovery_def listToolsRequestHandler_def)
  have post: "\<exists>r. handleStreamableHttpPost env body = Inr r
           \<and> reply_member r ''id'' = field kvs ''id''
           \<and> reply_member r ''error'' = None
           \<and> reply_member r ''result'' = Some listToolsRequestHandler"
    if "JSON_parse env body = Inr (JObj kvs)" "field kvs ''method'' = Some (JStr ''tools/list'')"
    using that
    by (simp add: handleStreamableHttpPost_def try_bind_def sendJsonResponse_members
        tools_result_def listToolsRequestHandler_def)
  from listed sigs sse names_stdio disc post show ?thesis
    by blast
qed

theorem tools_list_fixed_catalog_witness:
  "handleRequest test_env ''b'' one_stream
       \<lparr>req_method = ''GET'', req_path = ''/tools'', req_headers = Map.empty, req_body = [],
        req_readable = True\<rparr>
     = (one_stream, JsonReply 200 listToolsRequestHandler)
   \<and> (\<exists>r. handleStreamableHttpPost test_env ''{\"id\":2,\"method\":\"tools/list\"}'' = Inr r
         \<and> reply_member r ''id'' = Some (JNum 2)
         \<and> reply_member r ''error'' = None
         \<and> reply_member r ''result'' = Some listToolsRequestHandler)
   \<and> map (map_option name) (listed_tools listToolsRequestHandler)
        = [Some ''maps_geocode'', Some ''maps_reverse_geocode'', Some ''maps_render'']"
proof -
  let ?req = "\<lparr>req_method = ''GET'', req_path = ''/tools'', req_headers = Map.empty,
                req_body = [], req_readable = True\<rparr>"
  have g: "req_method ?req = ''GET'' \<and> req_path ?req = ''/tools''"
    by simp
  have p: "JSON_parse test_env ''{\"id\":2,\"method\":\"tools/list\"}''
             = Inr (JObj [(''id'', JNum 2), (''method'', JStr ''tools/list'')])
           \<and> field [(''id'', JNum 2), (''method'', JStr ''tools/list'')] ''method''
             = Some (JStr ''tools/list'')"
    by (simp add: test_env_def offline_env_def sample_parse_def field_def)
  have i: "field [(''id'', JNum 2), (''method'', JStr ''tools/list'')] ''id'' = Some (JNum 2)"
    by (simp add: field_def)
  have n: "map (map_option name) (map Some MAPS_TOOLS)
        = [Some ''maps_geocode'', Some ''maps_reverse_geocode'', Some ''maps_render'']"
    by (simp add: MAPS_TOOLS_def GEOCODE_TOOL_def REVERSE_GEOCODE_TOOL_def RENDER_MAP_TOOL_def)
  note c = tools_list_fixed_catalog [where req = ?req and env = test_env and sid = "''b''"
      and s = one_stream and body = "''{\"id\":2,\"method\":\"tools/list\"}''"
      and kvs = "[(''id'', JNum 2), (''method'', JStr ''tools/list'')]"]
  from c g have r1: "handleRequest test_env ''b'' one_stream ?req
     = (one_stream, JsonReply 200 listToolsRequestHandler)"
    by (simp only: simp_thms)
  from c p have r2: "\<exists>r. handleStreamableHttpPost test_env ''{\"id\":2,\"method\":\"tools/list\"}'' = Inr r
         \<and> reply_member r ''id''
              = field [(''id'', JNum 2), (''method'', JStr ''tools/list'')] ''id''
         \<and> reply_member r ''error'' = None
         \<and> reply_member r ''result'' = Some listToolsRequestHandler"
    by (simp only: simp_thms)
  from c have r3: "listed_tools listToolsRequestHandler = map Some MAPS_TOOLS"
    by (simp only: simp_thms)
  from r1 r2 r3 n show ?thesis
    unfolding i by simp
qed

section \<open>Claim about the geocode query\<close>

text \<open>
  C10. For string arguments, the \<open>geocode\<close> parameter that \<open>handleGeocode\<close> sends
  upstream is the comma-space join of house number, street, district, city, state and
  country in this order, leaving out the components that are \<open>undefined\<close> or empty; it
  is a function of the arguments alone. The request is sent once \<open>lang\<close> has been
  converted to a string, which for a string is \<open>lang\<close> itself.
\<close>

theorem geocode_query_comma_join:
  "handleGeocode env (Some (JStr country)) lang (map_option JStr state) (map_option JStr city)
     (map_option JStr district) (map_option JStr street) (map_option JStr house_number)
   = try_bind (to_String env lang) (\<lambda>lang_string.
       geocoder_fetch env
         [(''geocode'', comma_space (present_components
             [house_number, street, district, city, state, Some country])),
          (''format'', ''json''), (''results'', ''1''), (''lang'', lang_string),
          (''apikey'', YANDEX_MAPS_API_KEY env)])
   \<and> handleGeocode env (Some (JStr country)) (Some (JStr l)) (map_option JStr state)
       (map_option JStr city) (map_option JStr district) (map_option JStr street)
       (map_option JStr house_number)
   = geocoder_fetch env
       [(''geocode'', comma_space (present_components
           [house_number, street, district, city, state, Some country])),
        (''format'', ''json''), (''results'', ''1''), (''lang'', l),
        (''apikey'', YANDEX_MAPS_API_KEY env)]"
proof -
  have general: "handleGeocode env (Some (JStr country)) lang' (map_option JStr state)
       (map_option JStr city) (map_option JStr district) (map_option JStr street)
       (map_option JStr house_number)
   = try_bind (to_String env lang') (\<lambda>lang_string.
       geocoder_fetch env
         [(''geocode'', comma_space (present_components
             [house_number, street, district, city, state, Some country])),
          (''format'', ''json''), (''results'', ''1''), (''lang'', lang_string),
          (''apikey'', YANDEX_MAPS_API_KEY env)])" for lang'
    by (cases "to_String env lang'")
       (simp_all add: handleGeocode_def geocode_searchParams_def geocode_address_strings
         try_bind_def)
  from general [of lang] general [of "Some (JStr l)"] show ?thesis
    by (simp add: to_String_string try_bind_def)
qed

end
